theory Spec2Isabelle
  imports Complex_Main "HOL-Library.Sublist"
begin

section \<open>Data model of the HandTracking component\<close>

text \<open>
  The component keeps its interaction state in React refs and state hooks; the model
  gathers them in one record that every operation takes and returns. JavaScript numbers
  are modelled as exact reals (coordinates) and integers (millisecond clock readings);
  rounding of IEEE doubles is not modelled.

  Several interfaces of the source have fields called \<open>x\<close> and \<open>y\<close>; record fields
  share one name space, so they carry a prefix here: \<open>lx\<close>, \<open>ly\<close>, \<open>lz\<close> for a
  landmark, \<open>tid\<close>, \<open>tname\<close>, \<open>tx\<close>, \<open>ty\<close> for a \<open>TableObject\<close>, \<open>px\<close>,
  \<open>py\<close> for the pinch state and \<open>zx\<close>, \<open>zy\<close>, \<open>zwidth\<close>, \<open>zheight\<close> for the
  drop zone.
\<close>

record landmark =
  lx :: real
  ly :: real
  lz :: real

text \<open>One detected hand: MediaPipe delivers exactly 21 landmarks per hand.\<close>

type_synonym hand = "landmark list"

definition wf_hand :: "hand \<Rightarrow> bool" where
  "wf_hand h = (length h = 21)"

record TableObject =
  tid :: string
  tname :: string
  tx :: real
  ty :: real
  isDragging :: bool

record pinch =
  isPinching :: bool
  px :: real
  py :: real

record swipe =
  isTracking :: bool
  startX :: real
  startY :: real
  currentX :: real
  currentY :: real
  startTime :: int

datatype anim = Entering | Visible | Exiting | Hidden

datatype toast_type = Info | Error

text \<open>
  Deferred callbacks registered with \<open>setTimeout\<close>: clearing the toast (3000 ms), the
  delayed \<open>showChartWithAnimation\<close> of the generate action (500 ms), the end of the
  entrance animation (800 ms) and the end of the exit animation (600 ms).
\<close>

datatype timer = ToastClear | ShowChartDelay | EnterDone | ExitDone

record dropzone =
  zx :: real
  zy :: real
  zwidth :: real
  zheight :: real

definition dropZone :: dropzone where
  "dropZone = \<lparr>zx = 0.5, zy = 0.7, zwidth = 0.3, zheight = 0.2\<rparr>"

text \<open>
  The refs and state hooks of the component. A state hook is a plain field: a value set
  by one event is the value the next event reads. \<open>requests\<close> records the calls of
  \<open>fetchTableData\<close> (the catalog service is external and the arrival of its data is
  not modelled), \<open>pending\<close> the registered and not yet fired timers, \<open>chartTables\<close>
  the \<open>tables\<close> component of \<open>chartData\<close>.
\<close>

record state =
  tables :: "TableObject list"
  draggedTable :: "string option"
  tablesInitialized :: bool
  droppedTables :: "string list"
  generateButtonHover :: bool
  buttonClicked :: bool
  pinchState :: pinch
  swipeState :: swipe
  showChart :: bool
  chartAnimationState :: anim
  chartAnimationStart :: int
  chartTables :: "string list"
  toast :: "(string \<times> toast_type) option"
  requests :: "string list list"
  pending :: "timer list"

definition initialState :: state where
  "initialState =
     \<lparr>tables = [], draggedTable = None, tablesInitialized = False, droppedTables = [],
      generateButtonHover = False, buttonClicked = False,
      pinchState = \<lparr>isPinching = False, px = 0, py = 0\<rparr>,
      swipeState = \<lparr>isTracking = False, startX = 0, startY = 0, currentX = 0,
                    currentY = 0, startTime = 0\<rparr>,
      showChart = False, chartAnimationState = Hidden, chartAnimationStart = 0,
      chartTables = [], toast = None, requests = [], pending = []\<rparr>"

section \<open>Number formatting of template strings\<close>

fun showNat :: "nat \<Rightarrow> string" where
  "showNat n =
     (if n < 10 then [''0123456789'' ! n]
      else showNat (n div 10) @ [''0123456789'' ! (n mod 10)])"

declare showNat.simps [simp del]

definition showInt :: "int \<Rightarrow> string" where
  "showInt i = (if i < 0 then CHR ''-'' # showNat (nat (- i)) else showNat (nat i))"

section \<open>Toast and chart animation functions\<close>

definition showToast :: "string \<Rightarrow> toast_type \<Rightarrow> state \<Rightarrow> state" where
  "showToast message type s =
     s\<lparr>toast := Some (message, type), pending := pending s @ [ToastClear]\<rparr>"

definition showChartWithAnimation :: "int \<Rightarrow> state \<Rightarrow> state" where
  "showChartWithAnimation now s =
     s\<lparr>showChart := True, chartAnimationState := Entering, chartAnimationStart := now,
       pending := pending s @ [EnterDone]\<rparr>"

definition hideChartWithAnimation :: "int \<Rightarrow> state \<Rightarrow> state" where
  "hideChartWithAnimation now s =
     s\<lparr>chartAnimationState := Exiting, chartAnimationStart := now,
       pending := pending s @ [ExitDone]\<rparr>"

text \<open>The bodies of the four deferred callbacks.\<close>

fun timerBody :: "timer \<Rightarrow> int \<Rightarrow> state \<Rightarrow> state" where
  "timerBody ToastClear now s = s\<lparr>toast := None\<rparr>"
| "timerBody ShowChartDelay now s = showChartWithAnimation now s"
| "timerBody EnterDone now s = s\<lparr>chartAnimationState := Visible\<rparr>"
| "timerBody ExitDone now s =
     s\<lparr>showChart := False, chartAnimationState := Hidden, chartTables := [],
       droppedTables := []\<rparr>"

text \<open>A timer fires only if it was registered, and then it is consumed.\<close>

definition fireTimer :: "timer \<Rightarrow> int \<Rightarrow> state \<Rightarrow> state" where
  "fireTimer t now s =
     (if t \<in> set (pending s) then timerBody t now (s\<lparr>pending := remove1 t (pending s)\<rparr>)
      else s)"

section \<open>Initialisation of the table objects\<close>

definition displayTables :: "string list \<Rightarrow> string list" where
  "displayTables availableTables =
     (if length availableTables > 0 then availableTables
      else [''users'', ''posts'', ''comments'', ''products''])"

text \<open>\<open>clock index\<close> is the reading of \<open>Date.now()\<close> in the callback for \<open>index\<close>.\<close>

definition mkTable :: "(nat \<Rightarrow> int) \<Rightarrow> nat \<times> string \<Rightarrow> TableObject" where
  "mkTable clock p =
     (case p of (index, tableName) \<Rightarrow>
        \<lparr>tid = tableName @ ''-'' @ showInt (clock index) @ ''-'' @ showNat index,
         tname = tableName,
         tx = 0.1 + (real index * 0.15),
         ty = 0.1,
         isDragging = False\<rparr>)"

definition tableObjects :: "string list \<Rightarrow> (nat \<Rightarrow> int) \<Rightarrow> TableObject list" where
  "tableObjects availableTables clock =
     map (mkTable clock) (enumerate 0 (displayTables availableTables))"

definition initTables :: "bool \<Rightarrow> string list \<Rightarrow> (nat \<Rightarrow> int) \<Rightarrow> state \<Rightarrow> state" where
  "initTables tablesLoading availableTables clock s =
     (if \<not> tablesLoading \<and> \<not> tablesInitialized s
      then s\<lparr>tables := tableObjects availableTables clock, tablesInitialized := True\<rparr>
      else s)"

section \<open>Swipe detection (chart view)\<close>

definition swipeStep :: "hand \<Rightarrow> int \<Rightarrow> state \<Rightarrow> state" where
  "swipeStep landmarks currentTime s =
     (let indexTip = landmarks ! 8;
          indexExtended = ly indexTip < ly (landmarks ! 6)
      in if indexExtended then
           (let cX = lx indexTip; cY = ly indexTip
            in if \<not> isTracking (swipeState s) then
                 s\<lparr>swipeState := \<lparr>isTracking = True, startX = cX, startY = cY,
                                   currentX = cX, currentY = cY, startTime = currentTime\<rparr>\<rparr>
               else
                 (let sw = (swipeState s)\<lparr>currentX := cX, currentY := cY\<rparr>;
                      deltaX = cX - startX sw;
                      deltaY = \<bar>cY - startY sw\<bar>;
                      timeElapsed = currentTime - startTime sw
                  in if \<bar>deltaX\<bar> > 0.3 \<and> deltaY < 0.2 \<and> timeElapsed < 1000 then
                       (hideChartWithAnimation currentTime (s\<lparr>swipeState := sw\<rparr>))
                         \<lparr>swipeState := sw\<lparr>isTracking := False\<rparr>\<rparr>
                     else if timeElapsed > 1000 then
                       s\<lparr>swipeState := sw\<lparr>isTracking := False\<rparr>\<rparr>
                     else s\<lparr>swipeState := sw\<rparr>))
         else s\<lparr>swipeState := (swipeState s)\<lparr>isTracking := False\<rparr>\<rparr>)"

text \<open>
  The condition under which \<open>swipeStep\<close> reaches the call of
  \<open>hideChartWithAnimation\<close>: the finger is extended, a swipe is being tracked, and the
  three completion tests succeed.
\<close>

definition swipeCompletes :: "hand \<Rightarrow> int \<Rightarrow> state \<Rightarrow> bool" where
  "swipeCompletes landmarks currentTime s =
     (ly (landmarks ! 8) < ly (landmarks ! 6) \<and> isTracking (swipeState s) \<and>
      \<bar>lx (landmarks ! 8) - startX (swipeState s)\<bar> > 0.3 \<and>
      \<bar>ly (landmarks ! 8) - startY (swipeState s)\<bar> < 0.2 \<and>
      currentTime - startTime (swipeState s) < 1000)"

section \<open>Pinch detection and drag management (manipulation view)\<close>

text \<open>
  \<open>draggedTableRef.current\<close> is a string or null and is tested for truthiness: null and
  the empty string are both falsy.
\<close>

definition truthy :: "string option \<Rightarrow> bool" where
  "truthy d = (case d of None \<Rightarrow> False | Some i \<Rightarrow> i \<noteq> [])"

definition isDragged :: "state \<Rightarrow> TableObject \<Rightarrow> bool" where
  "isDragged s t = (Some (tid t) = draggedTable s)"

text \<open>
  \<open>Array.find\<close> returns a reference to the first matching object, which the caller then
  mutates: the model replaces the first matching element of the list.
\<close>

fun updateFirst :: "('a \<Rightarrow> bool) \<Rightarrow> ('a \<Rightarrow> 'a) \<Rightarrow> 'a list \<Rightarrow> 'a list" where
  "updateFirst P f [] = []"
| "updateFirst P f (t # ts) = (if P t then f t # ts else t # updateFirst P f ts)"

text \<open>The expression \<open>Math.max(0.05, Math.min(0.95, v))\<close> of the continue branch.\<close>

definition clamp :: "real \<Rightarrow> real" where
  "clamp v = max 0.05 (min 0.95 v)"

text \<open>
  The generate button in normalised coordinates. The canvas takes the window's inner
  width and height, which are natural numbers. With a zero dimension the source's
  divisions give infinities and NaN, every comparison with NaN is false, and the button
  is never hit.
\<close>

definition buttonHit :: "nat \<Rightarrow> nat \<Rightarrow> real \<Rightarrow> real \<Rightarrow> bool" where
  "buttonHit width height pinchX pinchY =
     (width \<noteq> 0 \<and> height \<noteq> 0 \<and>
      (let dropZoneX = zx dropZone * real width;
           dropZoneY = zy dropZone * real height;
           dropZoneWidth = zwidth dropZone * real width;
           buttonX = (dropZoneX + dropZoneWidth / 2 + 60) / real width;
           buttonY = dropZoneY / real height;
           buttonWidth = 120 / real width;
           buttonHeight = 40 / real height;
           buttonLeft = buttonX - buttonWidth / 2;
           buttonRight = buttonX + buttonWidth / 2;
           buttonTop = buttonY - buttonHeight / 2;
           buttonBottom = buttonY + buttonHeight / 2
       in pinchX \<ge> buttonLeft \<and> pinchX \<le> buttonRight \<and>
          pinchY \<ge> buttonTop \<and> pinchY \<le> buttonBottom))"

text \<open>
  The hit radius is \<open>60 / min width height\<close>; with a zero dimension it is infinite in
  the source and every table is near.
\<close>

definition nearTable :: "nat \<Rightarrow> nat \<Rightarrow> real \<Rightarrow> real \<Rightarrow> TableObject \<Rightarrow> bool" where
  "nearTable width height pinchX pinchY table =
     (min width height = 0 \<or>
      sqrt ((pinchX - tx table)\<^sup>2 + (pinchY - ty table)\<^sup>2) < 60 / real (min width height))"

text \<open>
  The loop over the tables with its \<open>break\<close>: the first near table is marked and its
  id is returned.
\<close>

fun startDrag :: "(TableObject \<Rightarrow> bool) \<Rightarrow> TableObject list \<Rightarrow> string option \<times> TableObject list" where
  "startDrag near [] = (None, [])"
| "startDrag near (table # ts) =
     (if near table then (Some (tid table), table\<lparr>isDragging := True\<rparr> # ts)
      else (case startDrag near ts of (d, ts') \<Rightarrow> (d, table # ts')))"

definition generate :: "state \<Rightarrow> state" where
  "generate s =
     (if length (droppedTables s) = 0 then
        showToast ''Please drop at least one table into the drop zone'' Error s
      else
        (let s1 = showToast (''Creating chart with '' @ showNat (length (droppedTables s))
                             @ '' table(s)'') Info s
         in s1\<lparr>requests := requests s1 @ [droppedTables s1],
               pending := pending s1 @ [ShowChartDelay]\<rparr>))"

definition pinchStart :: "nat \<Rightarrow> nat \<Rightarrow> real \<Rightarrow> real \<Rightarrow> state \<Rightarrow> state" where
  "pinchStart width height pinchX pinchY s =
     (let s' =
        (if buttonHit width height pinchX pinchY then
           (let s1 = s\<lparr>generateButtonHover := True\<rparr>
            in if \<not> buttonClicked s1 then generate (s1\<lparr>buttonClicked := True\<rparr>) else s1)
         else
           (case startDrag (nearTable width height pinchX pinchY) (tables s) of
              (None, ts) \<Rightarrow> s\<lparr>tables := ts\<rparr>
            | (Some i, ts) \<Rightarrow> s\<lparr>tables := ts, draggedTable := Some i\<rparr>))
      in s'\<lparr>pinchState := \<lparr>isPinching = True, px = pinchX, py = pinchY\<rparr>\<rparr>)"

definition pinchContinue :: "real \<Rightarrow> real \<Rightarrow> state \<Rightarrow> state" where
  "pinchContinue pinchX pinchY s =
     (let s' =
        (if truthy (draggedTable s) then
           (let deltaX = pinchX - px (pinchState s);
                deltaY = pinchY - py (pinchState s)
            in s\<lparr>tables :=
                   updateFirst (isDragged s)
                     (\<lambda>t. t\<lparr>tx := clamp (tx t + deltaX), ty := clamp (ty t + deltaY)\<rparr>)
                     (tables s)\<rparr>)
         else s)
      in s'\<lparr>pinchState := \<lparr>isPinching = True, px = pinchX, py = pinchY\<rparr>\<rparr>)"

definition inDropZone :: "real \<Rightarrow> real \<Rightarrow> bool" where
  "inDropZone tableX tableY =
     (let dropZoneLeft = zx dropZone - zwidth dropZone / 2;
          dropZoneRight = zx dropZone + zwidth dropZone / 2;
          dropZoneTop = zy dropZone - zheight dropZone / 2;
          dropZoneBottom = zy dropZone + zheight dropZone / 2
      in tableX \<ge> dropZoneLeft \<and> tableX \<le> dropZoneRight \<and>
         tableY \<ge> dropZoneTop \<and> tableY \<le> dropZoneBottom)"

text \<open>The measured release: the hand is present and no longer pinching.\<close>

definition pinchRelease :: "state \<Rightarrow> state" where
  "pinchRelease s =
     (let s1 = s\<lparr>generateButtonHover := False, buttonClicked := False\<rparr>;
          s2 =
            (if truthy (draggedTable s1) then
               (let s3 =
                  (case find (isDragged s1) (tables s1) of
                     None \<Rightarrow> s1
                   | Some draggedT \<Rightarrow>
                       (let s4 = s1\<lparr>tables := updateFirst (isDragged s1)
                                                (\<lambda>t. t\<lparr>isDragging := False\<rparr>) (tables s1)\<rparr>
                        in if inDropZone (tx draggedT) (ty draggedT) then
                             (if tname draggedT \<notin> set (droppedTables s4)
                              then s4\<lparr>droppedTables := droppedTables s4 @ [tname draggedT]\<rparr>
                              else s4)
                           else s4))
                in s3\<lparr>draggedTable := None\<rparr>)
             else s1)
      in s2\<lparr>pinchState := \<lparr>isPinching = False, px = 0, py = 0\<rparr>\<rparr>)"

text \<open>The branch taken when no hand is detected while the pinch state is pinching.\<close>

definition noHandsRelease :: "state \<Rightarrow> state" where
  "noHandsRelease s =
     (let s1 = s\<lparr>generateButtonHover := False\<rparr>;
          s2 =
            (if truthy (draggedTable s1) then
               s1\<lparr>tables := updateFirst (isDragged s1) (\<lambda>t. t\<lparr>isDragging := False\<rparr>) (tables s1),
                  draggedTable := None\<rparr>
             else s1)
      in s2\<lparr>pinchState := \<lparr>isPinching = False, px = 0, py = 0\<rparr>\<rparr>)"

definition pinchDistance :: "hand \<Rightarrow> real" where
  "pinchDistance landmarks =
     (let thumbTip = landmarks ! 4; indexTip = landmarks ! 8
      in sqrt ((lx thumbTip - lx indexTip)\<^sup>2 + (ly thumbTip - ly indexTip)\<^sup>2))"

definition pinchThreshold :: real where
  "pinchThreshold = 0.05"

text \<open>The body of the loop over \<open>results.multiHandLandmarks\<close>, for one hand.\<close>

definition processHand :: "nat \<Rightarrow> nat \<Rightarrow> state \<Rightarrow> hand \<Rightarrow> state" where
  "processHand width height s landmarks =
     (let thumbTip = landmarks ! 4; indexTip = landmarks ! 8;
          isPinchingNow = pinchDistance landmarks < pinchThreshold
      in if isPinchingNow then
           (let pinchX = (lx thumbTip + lx indexTip) / 2;
                pinchY = (ly thumbTip + ly indexTip) / 2
            in if \<not> isPinching (pinchState s) then pinchStart width height pinchX pinchY s
               else pinchContinue pinchX pinchY s)
         else if isPinching (pinchState s) then pinchRelease s
         else s)"

section \<open>The render loop\<close>

text \<open>
  One executed tick of \<open>renderLoop\<close> (after the 30 fps gate): the canvas size, the hands
  of the latest result (the empty list when there is no result or no hand) and the
  reading of \<open>Date.now()\<close>, taken once for the tick. Drawing is left out. In the chart
  view the tick returns after the swipe detector; the pinch detector runs in the
  manipulation view only, once per hand of the frame.
\<close>

definition renderLoop :: "nat \<Rightarrow> nat \<Rightarrow> hand list \<Rightarrow> int \<Rightarrow> state \<Rightarrow> state" where
  "renderLoop width height hands now s =
     (if showChart s then
        (case hands of [] \<Rightarrow> s | landmarks # _ \<Rightarrow> swipeStep landmarks now s)
      else if length hands > 0 then foldl (processHand width height) s hands
      else if isPinching (pinchState s) then noHandsRelease s
      else s)"

text \<open>
  Everything that can happen to the component, one event at a time: an executed tick, a
  timer callback (with the clock reading at that moment), and a run of the effect that
  watches the table list. The reachable states are those that some sequence of events
  produces from the initial state. Nothing is assumed about when a registered timer
  fires or about the hands a tick sees, so every state of a real session is among them.
\<close>

datatype event =
    Tick nat nat "hand list" int
  | Fire timer int
  | TablesLoaded bool "string list" "nat \<Rightarrow> int"

fun step :: "event \<Rightarrow> state \<Rightarrow> state" where
  "step (Tick width height hands now) s = renderLoop width height hands now s"
| "step (Fire t now) s = fireTimer t now s"
| "step (TablesLoaded tablesLoading availableTables clock) s =
     initTables tablesLoading availableTables clock s"

definition run :: "event list \<Rightarrow> state \<Rightarrow> state" where
  "run es s = foldl (\<lambda>s e. step e s) s es"


section \<open>Concrete inputs\<close>

text \<open>
  Hands and event traces at which the theorems below are instantiated. A hand is given
  by its thumb tip (index 4), index PIP joint (index 6) and index fingertip (index 8);
  the other eighteen landmarks sit at the origin.
\<close>

definition pt :: "real \<Rightarrow> real \<Rightarrow> landmark" where
  "pt a b = \<lparr>lx = a, ly = b, lz = 0\<rparr>"

definition mkHand :: "landmark \<Rightarrow> landmark \<Rightarrow> landmark \<Rightarrow> hand" where
  "mkHand thumbTip indexPIP indexTip =
     [pt 0 0, pt 0 0, pt 0 0, pt 0 0, thumbTip, pt 0 0, indexPIP, pt 0 0, indexTip,
      pt 0 0, pt 0 0, pt 0 0, pt 0 0, pt 0 0, pt 0 0, pt 0 0, pt 0 0, pt 0 0, pt 0 0,
      pt 0 0, pt 0 0]"

text \<open>Thumb and index fingertip together at \<open>(a, b)\<close>; the index finger is extended.\<close>

definition pinchAt :: "real \<Rightarrow> real \<Rightarrow> hand" where
  "pinchAt a b = mkHand (pt a b) (pt a (b + 0.1)) (pt a b)"

text \<open>Thumb and index fingertip 0.2 apart; the index finger is not extended.\<close>

definition openHand :: hand where
  "openHand = mkHand (pt 0.2 0.5) (pt 0.4 0.4) (pt 0.4 0.5)"

text \<open>Thumb and index fingertip exactly 0.05 apart (a 3-4-5 triangle).\<close>

definition boundaryHand :: hand where
  "boundaryHand = mkHand (pt 0.5 0.5) (pt 0.53 0.6) (pt 0.53 0.54)"

text \<open>Thumb and index fingertip 0.02 apart, around \<open>(0.31, 0.4)\<close>.\<close>

definition closeHand :: hand where
  "closeHand = mkHand (pt 0.3 0.4) (pt 0.32 0.5) (pt 0.32 0.4)"

text \<open>The index finger extended and pointing at \<open>(a, b)\<close>, the thumb far away.\<close>

definition pointAt :: "real \<Rightarrow> real \<Rightarrow> hand" where
  "pointAt a b = mkHand (pt 0 1) (pt a (b + 0.1)) (pt a b)"

text \<open>
  The table list arrives with the single name \<open>orders\<close>; the object is grabbed at its
  initial position and dragged into the drop zone. The pinch is still in progress.
\<close>

definition dragTrace :: "event list" where
  "dragTrace =
     [TablesLoaded False [''orders''] (\<lambda>i. 0),
      Tick 1280 720 [pinchAt 0.1 0.1] 0,
      Tick 1280 720 [pinchAt 0.5 0.7] 40]"

text \<open>The generate button is pinched while nothing has been dropped.\<close>

definition latchTrace :: "event list" where
  "latchTrace =
     [TablesLoaded False [''orders''] (\<lambda>i. 0),
      Tick 1280 720 [pinchAt 0.7 0.7] 0]"

text \<open>
  The object is dropped, the button pinched and released, and the delayed callback
  opens the chart: the view is entering.
\<close>

definition enteringTrace :: "event list" where
  "enteringTrace =
     dragTrace @
     [Tick 1280 720 [openHand] 80,
      Tick 1280 720 [pinchAt 0.7 0.7] 120,
      Tick 1280 720 [openHand] 160,
      Fire ShowChartDelay 620]"

text \<open>While the view is entering, a swipe starts at \<open>x = 0.2\<close>.\<close>

definition trackingTrace :: "event list" where
  "trackingTrace = enteringTrace @ [Tick 1280 720 [pointAt 0.2 0.5] 700]"


text \<open>Scenario D of the specification: a dragged object at \<open>(0.02, 0.5)\<close>.\<close>

definition scenarioD :: state where
  "scenarioD =
     initialState
       \<lparr>tables := [\<lparr>tid = ''orders-0-0'', tname = ''orders'', tx = 0.02, ty = 0.5,
                    isDragging = True\<rparr>],
        draggedTable := Some ''orders-0-0'',
        pinchState := \<lparr>isPinching = True, px = 0.5, py = 0.5\<rparr>\<rparr>"

text \<open>
  Two tables arrive; the first one is grabbed at its initial position \<open>(0.1, 0.1)\<close>.
\<close>

definition grabTrace :: "event list" where
  "grabTrace =
     [TablesLoaded False [''orders'', ''users''] (\<lambda>i. 0),
      Tick 1280 720 [pinchAt 0.1 0.1] 0]"




section \<open>Auxiliary facts\<close>

text \<open>
  Comparisons of a square root with a positive bound, the definitions unfolded when a
  concrete input is evaluated, and the behaviour of \<open>updateFirst\<close>.
\<close>

lemma sqrt_less_iff_sq: "0 < c \<Longrightarrow> sqrt a < c \<longleftrightarrow> a < c\<^sup>2"
  by (metis real_sqrt_less_iff real_sqrt_abs abs_of_pos)

lemma sqrt_eq_iff_sq: "0 < c \<Longrightarrow> 0 \<le> a \<Longrightarrow> sqrt a = c \<longleftrightarrow> a = c\<^sup>2"
  by (metis real_sqrt_eq_iff real_sqrt_abs abs_of_pos)

lemmas eval_defs = run_def renderLoop_def processHand_def pinchStart_def pinchContinue_def
  pinchRelease_def noHandsRelease_def pinchDistance_def pinchThreshold_def buttonHit_def
  nearTable_def inDropZone_def dropZone_def truthy_def isDragged_def clamp_def generate_def
  showToast_def initTables_def tableObjects_def displayTables_def mkTable_def initialState_def
  pinchAt_def openHand_def pointAt_def boundaryHand_def closeHand_def mkHand_def pt_def
  Let_def fireTimer_def swipeStep_def showChartWithAnimation_def hideChartWithAnimation_def
  wf_hand_def sqrt_less_iff_sq scenarioD_def swipeCompletes_def

lemma updateFirst_length [simp]: "length (updateFirst P f ts) = length ts"
  by (induction ts) auto

lemma find_updateFirst:
  "(\<And>t. P (f t) = P t) \<Longrightarrow> find P (updateFirst P f ts) = map_option f (find P ts)"
  by (induction ts) auto

lemma updateFirst_none: "find P ts = None \<Longrightarrow> updateFirst P f ts = ts"
  by (induction ts) (auto split: if_splits)

lemma updateFirst_nth:
  "i < length ts \<Longrightarrow>
   updateFirst P f ts ! i = (if P (ts ! i) \<and> (\<forall>j<i. \<not> P (ts ! j)) then f (ts ! i) else ts ! i)"
proof (induction ts arbitrary: i)
  case Nil
  then show ?case by simp
next
  case (Cons t ts)
  show ?case
  proof (cases i)
    case 0
    then show ?thesis by simp
  next
    case (Suc k)
    with Cons.prems have k: "k < length ts" by simp
    show ?thesis
    proof (cases "P t")
      case True
      then show ?thesis using Suc by auto
    next
      case False
      have "(\<forall>j<Suc k. \<not> P ((t # ts) ! j)) \<longleftrightarrow> (\<forall>j<k. \<not> P (ts ! j))"
        using False by (auto simp: less_Suc_eq_0_disj)
      then show ?thesis using False Suc Cons.IH [OF k] by auto
    qed
  qed
qed

lemma clamp_bounds: "0.05 \<le> clamp v \<and> clamp v \<le> 0.95"
  by (simp add: clamp_def)

lemma processHand_continue:
  "isPinching (pinchState s) \<Longrightarrow> pinchDistance lm < pinchThreshold \<Longrightarrow>
   processHand w h s lm =
     pinchContinue ((lx (lm ! 4) + lx (lm ! 8)) / 2) ((ly (lm ! 4) + ly (lm ! 8)) / 2) s"
  by (simp add: processHand_def Let_def)

section \<open>Clamping of a dragged object\<close>

text \<open>
  Claim C3. After a pinch-continue step on a dragged object (the hand is pinching, the
  pinch state was pinching, the drag target exists), the object's new coordinates are
  the clamped sums of the old coordinates and the displacement of the pinch point, and
  both lie in \<open>[0.05, 0.95]\<close> whatever the displacement is. Clamping a clamped value
  changes nothing, and the two bounds are fixed points of the clamp.
\<close>

theorem continue_clamps:
  assumes "wf_hand lm" "isPinching (pinchState s)" "pinchDistance lm < pinchThreshold"
    and "truthy (draggedTable s)" "find (isDragged s) (tables s) = Some t"
  shows "(\<exists>t'. find (isDragged (processHand w h s lm)) (tables (processHand w h s lm)) = Some t'
            \<and> tx t' = clamp (tx t + ((lx (lm ! 4) + lx (lm ! 8)) / 2 - px (pinchState s)))
            \<and> ty t' = clamp (ty t + ((ly (lm ! 4) + ly (lm ! 8)) / 2 - py (pinchState s)))
            \<and> 0.05 \<le> tx t' \<and> tx t' \<le> 0.95 \<and> 0.05 \<le> ty t' \<and> ty t' \<le> 0.95)
       \<and> clamp (clamp v) = clamp v \<and> clamp 0.05 = 0.05 \<and> clamp 0.95 = 0.95"
proof -
  let ?f = "\<lambda>t. t\<lparr>tx := clamp (tx t + ((lx (lm ! 4) + lx (lm ! 8)) / 2 - px (pinchState s))),
                   ty := clamp (ty t + ((ly (lm ! 4) + ly (lm ! 8)) / 2 - py (pinchState s)))\<rparr>"
  have d: "isDragged (processHand w h s lm) = isDragged s"
    using assms(2,3)
    by (simp add: processHand_continue pinchContinue_def Let_def isDragged_def fun_eq_iff)
  have t: "tables (processHand w h s lm) = updateFirst (isDragged s) ?f (tables s)"
    using assms(2,3,4) by (simp add: processHand_continue pinchContinue_def Let_def)
  have "find (isDragged s) (updateFirst (isDragged s) ?f (tables s)) = Some (?f t)"
    using assms(5) by (subst find_updateFirst) (simp_all add: isDragged_def)
  then have "\<exists>t'. find (isDragged (processHand w h s lm)) (tables (processHand w h s lm)) = Some t'
            \<and> tx t' = clamp (tx t + ((lx (lm ! 4) + lx (lm ! 8)) / 2 - px (pinchState s)))
            \<and> ty t' = clamp (ty t + ((ly (lm ! 4) + ly (lm ! 8)) / 2 - py (pinchState s)))
            \<and> 0.05 \<le> tx t' \<and> tx t' \<le> 0.95 \<and> 0.05 \<le> ty t' \<and> ty t' \<le> 0.95"
    using clamp_bounds by (simp add: d t)
  moreover have "clamp (clamp v) = clamp v" by (simp add: clamp_def)
  moreover have "clamp 0.05 = 0.05" by (simp add: clamp_def)
  moreover have "clamp 0.95 = 0.95" by (simp add: clamp_def)
  ultimately show ?thesis by blast
qed

text \<open>
  Scenario D: the object is at \<open>(0.02, 0.5)\<close> and the pinch point moves by
  \<open>(-0.1, 0)\<close>; the new abscissa is 0.05, not -0.08.
\<close>

theorem continue_clamps_scenarioD:
  "wf_hand (pinchAt 0.4 0.5) \<and> isPinching (pinchState scenarioD)
   \<and> pinchDistance (pinchAt 0.4 0.5) < pinchThreshold \<and> truthy (draggedTable scenarioD)
   \<and> tx (hd (tables scenarioD)) = 0.02 \<and> ty (hd (tables scenarioD)) = 0.5
   \<and> (lx (pinchAt 0.4 0.5 ! 4) + lx (pinchAt 0.4 0.5 ! 8)) / 2 - px (pinchState scenarioD) = - 0.1
   \<and> (ly (pinchAt 0.4 0.5 ! 4) + ly (pinchAt 0.4 0.5 ! 8)) / 2 - py (pinchState scenarioD) = 0
   \<and> map tx (tables (processHand 1280 720 scenarioD (pinchAt 0.4 0.5))) = [0.05]
   \<and> map ty (tables (processHand 1280 720 scenarioD (pinchAt 0.4 0.5))) = [0.5]"
proof -
  have 1: "wf_hand (pinchAt 0.4 0.5)" by (simp add: eval_defs)
  have 2: "isPinching (pinchState scenarioD)" by (simp add: eval_defs)
  have 3: "pinchDistance (pinchAt 0.4 0.5) < pinchThreshold" by (simp add: eval_defs)
  have 4: "truthy (draggedTable scenarioD)" by (simp add: eval_defs)
  have 5: "find (isDragged scenarioD) (tables scenarioD) = Some (hd (tables scenarioD))"
    by (simp add: eval_defs)
  show ?thesis
    using continue_clamps [OF 1 2 3 4 5, of 1280 720 0] 1 2 3 4
    by (simp add: eval_defs)
qed

section \<open>The pinch threshold and the pinch point\<close>

lemma sqrt_scaled_less: "sqrt a * 20 < 1 \<longleftrightarrow> a * 400 < 1"
proof -
  have "sqrt a * 20 < 1 \<longleftrightarrow> sqrt a < 1 / 20" by auto
  also have "\<dots> \<longleftrightarrow> a < (1 / 20)\<^sup>2" by (rule sqrt_less_iff_sq) simp
  also have "\<dots> \<longleftrightarrow> a * 400 < 1" by (auto simp: power2_eq_square)
  finally show ?thesis .
qed


lemma processHand_showChart [simp]: "showChart (processHand w h s lm) = showChart s"
  by (simp add: processHand_def pinchStart_def pinchContinue_def pinchRelease_def Let_def
      generate_def showToast_def split: prod.splits option.splits)

lemma foldl_processHand_showChart [simp]:
  "showChart (foldl (processHand w h) s hands) = showChart s"
  by (induction hands arbitrary: s) simp_all



section \<open>The frame of a pinch-continue step\<close>

text \<open>
  Claim C9. A pinch-continue step (the hand is pinching and the pinch state was
  pinching) returns the state with a new table list and the new pinch point and nothing
  else changed: in particular the dropped tables, the button hover flag, the
  button-clicked latch and the drag target are the old ones. The table list keeps its
  length, every object keeps its id, name and dragging flag, and an object that differs
  from the old one is the first object whose id is the drag target. When the drag
  target is null or empty, or no object has that id, the table list is unchanged.
\<close>

theorem continue_frame:
  assumes "wf_hand lm" "isPinching (pinchState s)" "pinchDistance lm < pinchThreshold"
  shows "\<exists>ts. processHand w h s lm =
               s\<lparr>tables := ts,
                 pinchState := \<lparr>isPinching = True, px = (lx (lm ! 4) + lx (lm ! 8)) / 2,
                                 py = (ly (lm ! 4) + ly (lm ! 8)) / 2\<rparr>\<rparr>
           \<and> length ts = length (tables s)
           \<and> (\<forall>i<length ts.
                 tid (ts ! i) = tid (tables s ! i) \<and> tname (ts ! i) = tname (tables s ! i)
                 \<and> isDragging (ts ! i) = isDragging (tables s ! i)
                 \<and> (ts ! i \<noteq> tables s ! i \<longrightarrow>
                      truthy (draggedTable s) \<and> isDragged s (tables s ! i)
                      \<and> (\<forall>j<i. \<not> isDragged s (tables s ! j))))
           \<and> (\<not> truthy (draggedTable s) \<or> find (isDragged s) (tables s) = None
                 \<longrightarrow> ts = tables s)
           \<and> droppedTables (processHand w h s lm) = droppedTables s
           \<and> generateButtonHover (processHand w h s lm) = generateButtonHover s
           \<and> buttonClicked (processHand w h s lm) = buttonClicked s
           \<and> draggedTable (processHand w h s lm) = draggedTable s"
proof (cases "truthy (draggedTable s)")
  case False
  then show ?thesis
    using assms(2,3)
    by (intro exI [of _ "tables s"]) (simp add: processHand_continue pinchContinue_def Let_def)
next
  case True
  let ?f = "\<lambda>t. t\<lparr>tx := clamp (tx t + ((lx (lm ! 4) + lx (lm ! 8)) / 2 - px (pinchState s))),
                   ty := clamp (ty t + ((ly (lm ! 4) + ly (lm ! 8)) / 2 - py (pinchState s)))\<rparr>"
  let ?ts = "updateFirst (isDragged s) ?f (tables s)"
  have eq: "processHand w h s lm =
              s\<lparr>tables := ?ts,
                pinchState := \<lparr>isPinching = True, px = (lx (lm ! 4) + lx (lm ! 8)) / 2,
                                py = (ly (lm ! 4) + ly (lm ! 8)) / 2\<rparr>\<rparr>"
    using assms(2,3) True by (simp add: processHand_continue pinchContinue_def Let_def)
  have nth: "i < length (tables s) \<Longrightarrow>
             ?ts ! i = (if isDragged s (tables s ! i) \<and> (\<forall>j<i. \<not> isDragged s (tables s ! j))
                        then ?f (tables s ! i) else tables s ! i)" for i
    by (rule updateFirst_nth)
  have none: "find (isDragged s) (tables s) = None \<Longrightarrow> ?ts = tables s"
    by (rule updateFirst_none)
  show ?thesis
    by (intro exI [of _ ?ts]) (use True none in \<open>auto simp: eq nth\<close>)
qed

text \<open>
  With \<open>orders\<close> grabbed at \<open>(0.1, 0.1)\<close> and the pinch point moved to
  \<open>(0.3, 0.3)\<close>, \<open>orders\<close> follows and \<open>users\<close> stays at \<open>(0.25, 0.1)\<close>.
\<close>

theorem continue_frame_witness:
  "wf_hand (pinchAt 0.3 0.3) \<and> isPinching (pinchState (run grabTrace initialState))
   \<and> pinchDistance (pinchAt 0.3 0.3) < pinchThreshold
   \<and> map tname (tables (run grabTrace initialState)) = [''orders'', ''users'']
   \<and> map tx (tables (run grabTrace initialState)) = [0.1, 0.25]
   \<and> map tx (tables (processHand 1280 720 (run grabTrace initialState) (pinchAt 0.3 0.3)))
       = [0.3, 0.25]
   \<and> map ty (tables (processHand 1280 720 (run grabTrace initialState) (pinchAt 0.3 0.3)))
       = [0.3, 0.1]
   \<and> droppedTables (processHand 1280 720 (run grabTrace initialState) (pinchAt 0.3 0.3))
       = droppedTables (run grabTrace initialState)
   \<and> buttonClicked (processHand 1280 720 (run grabTrace initialState) (pinchAt 0.3 0.3))
       = buttonClicked (run grabTrace initialState)
   \<and> generateButtonHover (processHand 1280 720 (run grabTrace initialState) (pinchAt 0.3 0.3))
       = generateButtonHover (run grabTrace initialState)"
proof -
  have 1: "wf_hand (pinchAt 0.3 0.3)" by (simp add: eval_defs)
  have 2: "isPinching (pinchState (run grabTrace initialState))"
    by (simp add: grabTrace_def eval_defs)
  have 3: "pinchDistance (pinchAt 0.3 0.3) < pinchThreshold" by (simp add: eval_defs)
  have 4: "map tname (tables (run grabTrace initialState)) = [''orders'', ''users'']
           \<and> map tx (tables (run grabTrace initialState)) = [0.1, 0.25]"
    by (simp add: grabTrace_def eval_defs)
  have 5: "map tx (tables (processHand 1280 720 (run grabTrace initialState) (pinchAt 0.3 0.3)))
       = [0.3, 0.25]
     \<and> map ty (tables (processHand 1280 720 (run grabTrace initialState) (pinchAt 0.3 0.3)))
       = [0.3, 0.1]"
    by (simp add: grabTrace_def eval_defs)
  show ?thesis
    using continue_frame [OF 1 2 3, of 1280 720] 1 2 3 4 5 by auto
qed

section \<open>The initial layout of the table objects\<close>

lemma tableObjects_length [simp]:
  "length (tableObjects names clock) = length (displayTables names)"
  by (simp add: tableObjects_def)




section \<open>The generate action with nothing dropped\<close>

text \<open>
  Claim C8. In the manipulation view, when a pinch starts on the generate button, the
  latch is not set and no table has been dropped, the tick sets the hover flag and the
  latch, stores the pinch point, shows the error toast (registering only the timer that
  clears it) and changes nothing else: no request to the catalog is made, no chart
  transition is scheduled, and \<open>showChart\<close> and the animation state stay as they were.
\<close>

theorem generate_empty:
  assumes "wf_hand lm" "\<not> showChart s" "\<not> isPinching (pinchState s)"
    and "pinchDistance lm < pinchThreshold"
    and "buttonHit w h ((lx (lm ! 4) + lx (lm ! 8)) / 2) ((ly (lm ! 4) + ly (lm ! 8)) / 2)"
    and "\<not> buttonClicked s" "droppedTables s = []"
  shows "renderLoop w h [lm] now s =
           s\<lparr>generateButtonHover := True, buttonClicked := True,
             pinchState := \<lparr>isPinching = True, px = (lx (lm ! 4) + lx (lm ! 8)) / 2,
                             py = (ly (lm ! 4) + ly (lm ! 8)) / 2\<rparr>,
             toast := Some (''Please drop at least one table into the drop zone'', Error),
             pending := pending s @ [ToastClear]\<rparr>
       \<and> toast (renderLoop w h [lm] now s)
           = Some (''Please drop at least one table into the drop zone'', Error)
       \<and> requests (renderLoop w h [lm] now s) = requests s
       \<and> pending (renderLoop w h [lm] now s) = pending s @ [ToastClear]
       \<and> showChart (renderLoop w h [lm] now s) = showChart s
       \<and> chartAnimationState (renderLoop w h [lm] now s) = chartAnimationState s
       \<and> droppedTables (renderLoop w h [lm] now s) = []
       \<and> generate s = showToast ''Please drop at least one table into the drop zone'' Error s"
  using assms
  by (simp add: renderLoop_def processHand_def pinchStart_def generate_def showToast_def Let_def)

text \<open>
  Right after the tables were loaded (view hidden, nothing dropped), a pinch at
  \<open>(0.7, 0.7)\<close> on a 1280 x 720 canvas hits the button.
\<close>

theorem generate_empty_witness:
  "wf_hand (pinchAt 0.7 0.7)
   \<and> buttonHit 1280 720 0.7 0.7
   \<and> droppedTables (run [TablesLoaded False [''orders''] (\<lambda>i. 0)] initialState) = []
   \<and> chartAnimationState (run [TablesLoaded False [''orders''] (\<lambda>i. 0)] initialState) = Hidden
   \<and> run latchTrace initialState
       = step (Tick 1280 720 [pinchAt 0.7 0.7] 0)
           (run [TablesLoaded False [''orders''] (\<lambda>i. 0)] initialState)
   \<and> toast (run latchTrace initialState)
       = Some (''Please drop at least one table into the drop zone'', Error)
   \<and> requests (run latchTrace initialState) = []
   \<and> pending (run latchTrace initialState) = [ToastClear]
   \<and> showChart (run latchTrace initialState) = False
   \<and> chartAnimationState (run latchTrace initialState) = Hidden"
proof -
  let ?s = "run [TablesLoaded False [''orders''] (\<lambda>i. 0)] initialState"
  have 1: "wf_hand (pinchAt 0.7 0.7)" by (simp add: eval_defs)
  have 2: "\<not> showChart ?s" "\<not> isPinching (pinchState ?s)" "\<not> buttonClicked ?s"
    "droppedTables ?s = []" "chartAnimationState ?s = Hidden" "requests ?s = []"
    "pending ?s = []"
    by (simp_all add: eval_defs)
  have 3: "pinchDistance (pinchAt 0.7 0.7) < pinchThreshold" by (simp add: eval_defs)
  have 4: "buttonHit 1280 720 0.7 0.7" by (simp add: eval_defs)
  have 6: "buttonHit 1280 720 ((lx (pinchAt 0.7 0.7 ! 4) + lx (pinchAt 0.7 0.7 ! 8)) / 2)
             ((ly (pinchAt 0.7 0.7 ! 4) + ly (pinchAt 0.7 0.7 ! 8)) / 2)"
    by (simp add: eval_defs)
  have 7: "run latchTrace initialState = renderLoop 1280 720 [pinchAt 0.7 0.7] 0 ?s"
    by (simp add: latchTrace_def run_def)
  show ?thesis
    using generate_empty [OF 1 2(1) 2(2) 3 6 2(3) 2(4), of 0] 1 2 4 7
    by simp
qed

section \<open>The swipe timeout\<close>


lemma swipeStep_other:
  "\<not> swipeCompletes lm now s \<Longrightarrow>
   swipeStep lm now s = s\<lparr>swipeState := swipeState (swipeStep lm now s)\<rparr>"
  by (auto simp add: swipeStep_def swipeCompletes_def Let_def)

lemma swipeStep_tracking_timeout:
  "now - startTime (swipeState s) > 1000 \<Longrightarrow> isTracking (swipeState s) \<Longrightarrow>
   \<not> isTracking (swipeState (swipeStep lm now s))"
  by (simp add: swipeStep_def Let_def)

lemma swipeStep_tracking_boundary:
  "now - startTime (swipeState s) = 1000 \<Longrightarrow> isTracking (swipeState s) \<Longrightarrow>
   ly (lm ! 8) < ly (lm ! 6) \<Longrightarrow>
   swipeStep lm now s =
     s\<lparr>swipeState := (swipeState s)\<lparr>currentX := lx (lm ! 8), currentY := ly (lm ! 8)\<rparr>\<rparr>"
  by (simp add: swipeStep_def Let_def)

text \<open>
  Claim C7, as the code has it. In the chart view, on a tick that sees a hand while a
  swipe is tracked and at least 1000 ms have passed since it started, the swipe does not
  complete: the tick changes the swipe state only, so the animation state and the
  registered timers are the old ones. When more than 1000 ms have passed, tracking
  stops. At exactly 1000 ms, with the finger still extended, tracking goes on.
\<close>

theorem swipe_timeout:
  assumes "wf_hand lm" "showChart s" "isTracking (swipeState s)"
    and "now - startTime (swipeState s) \<ge> 1000"
  shows "\<not> swipeCompletes lm now s
       \<and> renderLoop w h (lm # rest) now s
           = s\<lparr>swipeState := swipeState (renderLoop w h (lm # rest) now s)\<rparr>
       \<and> chartAnimationState (renderLoop w h (lm # rest) now s) = chartAnimationState s
       \<and> pending (renderLoop w h (lm # rest) now s) = pending s
       \<and> (now - startTime (swipeState s) > 1000 \<longrightarrow>
            \<not> isTracking (swipeState (renderLoop w h (lm # rest) now s)))
       \<and> (now - startTime (swipeState s) = 1000 \<and> ly (lm ! 8) < ly (lm ! 6) \<longrightarrow>
            isTracking (swipeState (renderLoop w h (lm # rest) now s)))"
proof -
  have n: "\<not> swipeCompletes lm now s"
    using assms(4) by (simp add: swipeCompletes_def)
  have r: "renderLoop w h (lm # rest) now s = swipeStep lm now s"
    using assms(2) by (simp add: renderLoop_def)
  have e: "swipeStep lm now s = s\<lparr>swipeState := swipeState (swipeStep lm now s)\<rparr>"
    using n by (rule swipeStep_other)
  have c: "chartAnimationState (swipeStep lm now s) = chartAnimationState s"
    by (subst e) simp
  have p: "pending (swipeStep lm now s) = pending s"
    by (subst e) simp
  have t: "now - startTime (swipeState s) > 1000 \<longrightarrow>
            \<not> isTracking (swipeState (swipeStep lm now s))"
    using assms(3) by (simp add: swipeStep_tracking_timeout)
  have b: "now - startTime (swipeState s) = 1000 \<and> ly (lm ! 8) < ly (lm ! 6) \<longrightarrow>
            isTracking (swipeState (swipeStep lm now s))"
    using assms(3) by (simp add: swipeStep_tracking_boundary)
  show ?thesis
    unfolding r using n e c p t b by blast
qed

text \<open>A swipe started at 700 ms and seen again at 1701 ms is abandoned.\<close>

theorem swipe_timeout_witness:
  "wf_hand (pointAt 0.25 0.5) \<and> showChart (run trackingTrace initialState)
   \<and> isTracking (swipeState (run trackingTrace initialState))
   \<and> startTime (swipeState (run trackingTrace initialState)) = 700
   \<and> \<not> isTracking (swipeState
          (renderLoop 1280 720 [pointAt 0.25 0.5] 1701 (run trackingTrace initialState)))
   \<and> chartAnimationState
        (renderLoop 1280 720 [pointAt 0.25 0.5] 1701 (run trackingTrace initialState))
       = Entering
   \<and> pending (renderLoop 1280 720 [pointAt 0.25 0.5] 1701 (run trackingTrace initialState))
       = pending (run trackingTrace initialState)"
proof -
  let ?s = "run trackingTrace initialState"
  have 1: "wf_hand (pointAt 0.25 0.5)" by (simp add: eval_defs)
  have 2: "showChart ?s" "isTracking (swipeState ?s)" "startTime (swipeState ?s) = 700"
    "chartAnimationState ?s = Entering"
    by (simp_all add: trackingTrace_def enteringTrace_def dragTrace_def eval_defs)
  have 3: "1701 - startTime (swipeState ?s) \<ge> 1000" using 2(3) by simp
  show ?thesis
    using swipe_timeout [OF 1 2(1) 2(2) 3, of 1280 720 "[]"] 1 2 by simp
qed

text \<open>
  The same swipe seen again at 1700 ms, exactly 1000 ms after its start: it has not
  completed and it is still tracked.
\<close>

theorem swipe_timeout_at_1000_counterexample:
  "isTracking (swipeState (run trackingTrace initialState))
   \<and> 1700 - startTime (swipeState (run trackingTrace initialState)) = 1000
   \<and> \<not> swipeCompletes (pointAt 0.25 0.5) 1700 (run trackingTrace initialState)
   \<and> isTracking (swipeState
        (renderLoop 1280 720 [pointAt 0.25 0.5] 1700 (run trackingTrace initialState)))"
  by (simp add: trackingTrace_def enteringTrace_def dragTrace_def eval_defs)

section \<open>Several hands in one frame\<close>

lemma processHand_swipeState [simp]: "swipeState (processHand w h s lm) = swipeState s"
  by (simp add: processHand_def pinchStart_def pinchContinue_def pinchRelease_def Let_def
      generate_def showToast_def split: prod.splits option.splits)

lemma foldl_processHand_swipeState [simp]:
  "swipeState (foldl (processHand w h) s hands) = swipeState s"
  by (induction hands arbitrary: s) simp_all

lemma noHandsRelease_swipeState [simp]: "swipeState (noHandsRelease s) = swipeState s"
  by (simp add: noHandsRelease_def Let_def)

lemma swipeStep_frame:
  "tables (swipeStep lm now s) = tables s \<and> droppedTables (swipeStep lm now s) = droppedTables s
   \<and> pinchState (swipeStep lm now s) = pinchState s
   \<and> draggedTable (swipeStep lm now s) = draggedTable s
   \<and> showChart (swipeStep lm now s) = showChart s"
  by (simp add: swipeStep_def hideChartWithAnimation_def Let_def)




section \<open>Release when the hand disappears\<close>

lemma isDragged_update [simp]:
  "isDragged (s\<lparr>generateButtonHover := a\<rparr>) = isDragged s"
  "isDragged (s\<lparr>buttonClicked := b\<rparr>) = isDragged s"
  by (simp_all add: isDragged_def fun_eq_iff)

lemma noHandsRelease_eq:
  "noHandsRelease s =
     (pinchRelease s)\<lparr>droppedTables := droppedTables s, buttonClicked := buttonClicked s\<rparr>"
  by (cases "find (isDragged s) (tables s)")
     (simp_all add: noHandsRelease_def pinchRelease_def Let_def updateFirst_none)

text \<open>
  Claim C1 asks that a frame without hands, while pinching, gives the state that a
  measured release gives. In the code the branch for no hands does not reset the
  button-clicked latch and does not test the drop zone: its result is the result of the
  measured release with the dropped tables and the latch put back to their old values.
\<close>

theorem no_hands_release_differs:
  assumes "wf_hand lm" "\<not> showChart s" "isPinching (pinchState s)"
    and "\<not> pinchDistance lm < pinchThreshold"
  shows "renderLoop w h [lm] now s = pinchRelease s
       \<and> renderLoop w h [] now s = noHandsRelease s
       \<and> renderLoop w h [] now s =
           (renderLoop w h [lm] now s)
             \<lparr>droppedTables := droppedTables s, buttonClicked := buttonClicked s\<rparr>"
  using assms by (simp add: renderLoop_def processHand_def noHandsRelease_eq)

text \<open>
  With \<open>orders\<close> dragged to \<open>(0.5, 0.7)\<close>, inside the drop zone, a measured
  release records it and a frame without hands does not. With the latch set by a pinch
  on the button, a measured release clears it and a frame without hands leaves it set.
\<close>

theorem no_hands_release_differs_at_input:
  "wf_hand openHand
   \<and> isPinching (pinchState (run dragTrace initialState))
   \<and> map tx (tables (run dragTrace initialState)) = [0.5]
   \<and> map ty (tables (run dragTrace initialState)) = [0.7]
   \<and> inDropZone 0.5 0.7
   \<and> droppedTables (renderLoop 1280 720 [openHand] 80 (run dragTrace initialState)) = [''orders'']
   \<and> droppedTables (renderLoop 1280 720 [] 80 (run dragTrace initialState)) = []
   \<and> isPinching (pinchState (run latchTrace initialState))
   \<and> buttonClicked (run latchTrace initialState)
   \<and> \<not> buttonClicked (renderLoop 1280 720 [openHand] 40 (run latchTrace initialState))
   \<and> buttonClicked (renderLoop 1280 720 [] 40 (run latchTrace initialState))"
proof -
  have 1: "wf_hand openHand" by (simp add: eval_defs)
  have 2: "\<not> pinchDistance openHand < pinchThreshold"
    by (simp add: eval_defs power2_eq_square sqrt_scaled_less)
  have 3: "\<not> showChart (run dragTrace initialState)"
    "isPinching (pinchState (run dragTrace initialState))"
    "map tx (tables (run dragTrace initialState)) = [0.5]"
    "map ty (tables (run dragTrace initialState)) = [0.7]"
    "droppedTables (run dragTrace initialState) = []"
    by (simp_all add: dragTrace_def eval_defs)
  have 4: "\<not> showChart (run latchTrace initialState)"
    "isPinching (pinchState (run latchTrace initialState))"
    "buttonClicked (run latchTrace initialState)"
    by (simp_all add: latchTrace_def eval_defs)
  have 5: "inDropZone 0.5 0.7" by (simp add: eval_defs)
  have 6: "droppedTables (pinchRelease (run dragTrace initialState)) = [''orders'']"
    by (simp add: dragTrace_def eval_defs)
  have 7: "\<not> buttonClicked (pinchRelease (run latchTrace initialState))"
    by (simp add: pinchRelease_def Let_def split: option.splits)
  note d = no_hands_release_differs [OF 1 3(1) 3(2) 2, of 1280 720 80]
  note l = no_hands_release_differs [OF 1 4(1) 4(2) 2, of 1280 720 40]
  have 8: "droppedTables (renderLoop 1280 720 [openHand] 80 (run dragTrace initialState))
            = [''orders'']"
    using d 6 by simp
  have 9: "droppedTables (renderLoop 1280 720 [] 80 (run dragTrace initialState)) = []"
    by (subst d [THEN conjunct2, THEN conjunct2]) (simp add: 3)
  have 10: "\<not> buttonClicked (renderLoop 1280 720 [openHand] 40 (run latchTrace initialState))"
    using l 7 by simp
  have 11: "buttonClicked (renderLoop 1280 720 [] 40 (run latchTrace initialState))"
    by (subst l [THEN conjunct2, THEN conjunct2]) (simp add: 4)
  show ?thesis
    using 1 3 4 5 8 9 10 11 by blast
qed

section \<open>Facts about whole ticks and events\<close>





lemma noHandsRelease_dropped [simp]: "droppedTables (noHandsRelease s) = droppedTables s"
  by (simp add: noHandsRelease_def Let_def)



lemma processHand_anim [simp]:
  "chartAnimationState (processHand w h s lm) = chartAnimationState s"
  by (simp add: processHand_def pinchStart_def pinchContinue_def pinchRelease_def Let_def
      generate_def showToast_def split: prod.splits option.splits)

lemma foldl_processHand_anim [simp]:
  "chartAnimationState (foldl (processHand w h) s hands) = chartAnimationState s"
  by (induction hands arbitrary: s) simp_all

lemma noHandsRelease_anim [simp]:
  "chartAnimationState (noHandsRelease s) = chartAnimationState s"
  "showChart (noHandsRelease s) = showChart s"
  by (simp_all add: noHandsRelease_def Let_def)



lemma renderLoop_showChart [simp]: "showChart (renderLoop w h hands now s) = showChart s"
  by (simp add: renderLoop_def swipeStep_frame split: list.splits)



lemma initTables_frame [simp]:
  "chartAnimationState (initTables l names clock s) = chartAnimationState s"
  "showChart (initTables l names clock s) = showChart s"
  "droppedTables (initTables l names clock s) = droppedTables s"
  by (simp_all add: initTables_def)







section \<open>The dropped tables as an ordered set\<close>



section \<open>The transitions of the chart animation state\<close>




end
